theory Spec2Isabelle
  imports Main
begin

section \<open>Python values and errors\<close>

text \<open>
  The attribute values the event layer compares are dynamically typed: a status and a
  severity are strings, the confirmed flag is a boolean, and any of them may be None.
\<close>

datatype pyval = PNone | PBool bool | PInt int | PStr string

text \<open>Truthiness of a value, as \<^verbatim>\<open>if x\<close> evaluates it.\<close>

fun truthy :: "pyval \<Rightarrow> bool" where
  "truthy PNone = False"
| "truthy (PBool b) = b"
| "truthy (PInt i) = (i \<noteq> 0)"
| "truthy (PStr s) = (s \<noteq> [])"

text \<open>
  Python's \<^verbatim>\<open>==\<close>: a boolean is an integer, so \<^verbatim>\<open>True == 1\<close> and \<^verbatim>\<open>False == 0\<close>;
  values of other types are equal when they are the same value. Against a string
  (the status and severity constants) it is the equality of HOL.
\<close>

fun py_eq :: "pyval \<Rightarrow> pyval \<Rightarrow> bool" where
  "py_eq (PBool b) (PInt i) = (i = (if b then 1 else 0))"
| "py_eq (PInt i) (PBool b) = (i = (if b then 1 else 0))"
| "py_eq x y = (x = y)"

text \<open>
  Every exception the modelled code can raise. \<open>HTTPException\<close> is what
  \<^verbatim>\<open>flask.abort(code, description)\<close> raises.
\<close>

datatype error =
    IndexError
  | UnboundLocalError
  | AssertionError string
  | NoResultFound
  | MultipleResultsFound
  | HTTPException nat string
  | ProgrammingError string

section \<open>faraday/server/events.py: the severities histogram\<close>

subsection \<open>Constants of the data model\<close>

text \<open>
  Modelled from the spec: the constants \<^verbatim>\<open>Vulnerability.STATUS_*\<close>,
  \<^verbatim>\<open>Vulnerability.SEVERITY_*\<close> and \<^verbatim>\<open>SeveritiesHistogram.SEVERITIES_ALLOWED\<close> are
  declared in faraday.server.models, which is not part of the sources; the spec gives the
  status values open, re-opened, closed, risk-accepted and the tracked severities
  medium, high, critical.
\<close>

definition STATUS_OPEN :: pyval where "STATUS_OPEN = PStr ''open''"
definition STATUS_RE_OPENED :: pyval where "STATUS_RE_OPENED = PStr ''re-opened''"
definition STATUS_CLOSED :: pyval where "STATUS_CLOSED = PStr ''closed''"
definition STATUS_RISK_ACCEPTED :: pyval where "STATUS_RISK_ACCEPTED = PStr ''risk-accepted''"

definition SEVERITY_MEDIUM :: pyval where "SEVERITY_MEDIUM = PStr ''medium''"
definition SEVERITY_HIGH :: pyval where "SEVERITY_HIGH = PStr ''high''"
definition SEVERITY_CRITICAL :: pyval where "SEVERITY_CRITICAL = PStr ''critical''"

definition SEVERITIES_ALLOWED :: "pyval list" where
  "SEVERITIES_ALLOWED = [SEVERITY_MEDIUM, SEVERITY_HIGH, SEVERITY_CRITICAL]"

lemmas model_constants =
  STATUS_OPEN_def STATUS_RE_OPENED_def STATUS_CLOSED_def STATUS_RISK_ACCEPTED_def
  SEVERITY_MEDIUM_def SEVERITY_HIGH_def SEVERITY_CRITICAL_def SEVERITIES_ALLOWED_def

subsection \<open>The histogram table and the connection\<close>

text \<open>A calendar day, as \<^verbatim>\<open>date.today()\<close> returns it, counted in days.\<close>

type_synonym date = nat

text \<open>One row of the table \<^verbatim>\<open>severities_histogram\<close>.\<close>

record histogram_row =
  h_id :: nat
  h_workspace_id :: nat
  h_date :: date
  h_medium :: int
  h_high :: int
  h_critical :: int
  h_confirmed :: int

text \<open>
  The state the hooks act on: the rows of \<^verbatim>\<open>severities_histogram\<close> in insertion order,
  the next value of the table's id sequence, and the messages passed to
  \<^verbatim>\<open>logger.error\<close>.
\<close>

record db =
  severities_histogram :: "histogram_row list"
  next_id :: nat
  error_log :: "string list"

definition logger_error :: "db \<Rightarrow> string \<Rightarrow> db" where
  "logger_error c msg = c\<lparr>error_log := error_log c @ [msg]\<rparr>"

text \<open>
  \<^verbatim>\<open>SeveritiesHistogram.query.with_entities('id').filter(date == today,
  workspace_id == w).first()\<close>: the first row of the day and workspace, if any.
\<close>

definition histogram_first :: "date \<Rightarrow> nat \<Rightarrow> db \<Rightarrow> histogram_row option" where
  "histogram_first today w c =
     find (\<lambda>r. h_date r = today \<and> h_workspace_id r = w) (severities_histogram c)"

text \<open>The SQL statement \<^verbatim>\<open>UPDATE severities_histogram SET ... WHERE id = i\<close>.\<close>

definition add_deltas :: "int \<Rightarrow> int \<Rightarrow> int \<Rightarrow> int \<Rightarrow> histogram_row \<Rightarrow> histogram_row" where
  "add_deltas medium high critical confirmed r =
     r\<lparr>h_medium := h_medium r + medium,
       h_high := h_high r + high,
       h_critical := h_critical r + critical,
       h_confirmed := h_confirmed r + confirmed\<rparr>"

definition sql_update :: "nat \<Rightarrow> int \<Rightarrow> int \<Rightarrow> int \<Rightarrow> int \<Rightarrow> db \<Rightarrow> db" where
  "sql_update i medium high critical confirmed c =
     c\<lparr>severities_histogram :=
         map (\<lambda>r. if h_id r = i then add_deltas medium high critical confirmed r else r)
           (severities_histogram c)\<rparr>"

text \<open>The SQL statement \<^verbatim>\<open>INSERT INTO severities_histogram ... VALUES ...\<close>.\<close>

definition sql_insert :: "nat \<Rightarrow> int \<Rightarrow> int \<Rightarrow> int \<Rightarrow> date \<Rightarrow> int \<Rightarrow> db \<Rightarrow> db" where
  "sql_insert w medium high critical today confirmed c =
     c\<lparr>severities_histogram := severities_histogram c @
          [\<lparr>h_id = next_id c, h_workspace_id = w, h_date = today, h_medium = medium,
            h_high = high, h_critical = critical, h_confirmed = confirmed\<rparr>],
       next_id := Suc (next_id c)\<rparr>"

definition create_or_update_histogram ::
  "date \<Rightarrow> db \<Rightarrow> nat option \<Rightarrow> int \<Rightarrow> int \<Rightarrow> int \<Rightarrow> int \<Rightarrow> db" where
  "create_or_update_histogram today connection workspace_id medium high critical confirmed =
     (case workspace_id of
        None \<Rightarrow>
          logger_error connection ''Workspace with None value. Histogram could not be updated''
      | Some w \<Rightarrow>
          (case histogram_first today w connection of
             None \<Rightarrow> sql_insert w medium high critical today confirmed connection
           | Some ws_id \<Rightarrow> sql_update (h_id ws_id) medium high critical confirmed connection))"

definition dicrease_severities_histogram ::
  "pyval \<Rightarrow> int \<Rightarrow> int \<Rightarrow> int \<Rightarrow> int \<times> int \<times> int" where
  "dicrease_severities_histogram instance_severity medium high critical =
     (if instance_severity = SEVERITY_MEDIUM then - 1 else medium,
      if instance_severity = SEVERITY_HIGH then - 1 else high,
      if instance_severity = SEVERITY_CRITICAL then - 1 else critical)"

definition increase_severities_histogram ::
  "pyval \<Rightarrow> int \<Rightarrow> int \<Rightarrow> int \<Rightarrow> int \<times> int \<times> int" where
  "increase_severities_histogram instance_severity medium high critical =
     (if instance_severity = SEVERITY_MEDIUM then 1 else medium,
      if instance_severity = SEVERITY_HIGH then 1 else high,
      if instance_severity = SEVERITY_CRITICAL then 1 else critical)"

subsection \<open>Vulnerabilities and the single-row hooks\<close>

record vulnerability =
  v_id :: int
  v_workspace_id :: "nat option"
  v_status :: pyval
  v_severity :: pyval
  v_confirmed :: pyval


definition alter_histogram_on_delete :: "date \<Rightarrow> db \<Rightarrow> vulnerability \<Rightarrow> db" where
  "alter_histogram_on_delete today connection inst =
     (if v_status inst \<in> set [STATUS_OPEN, STATUS_RE_OPENED] then
        (if v_severity inst \<in> set SEVERITIES_ALLOWED then
           (case dicrease_severities_histogram (v_severity inst) 0 0 0 of
              (medium, high, critical) \<Rightarrow>
                create_or_update_histogram today connection (v_workspace_id inst)
                  medium high critical (if v_confirmed inst = PBool True then - 1 else 0))
         else connection)
      else connection)"

subsection \<open>Attribute histories and the update hook\<close>

text \<open>
  The history of one attribute, as \<^verbatim>\<open>get_history\<close> returns it: three sequences, each
  empty or holding one value.
\<close>

record history =
  added :: "pyval list"
  unchanged :: "pyval list"
  deleted :: "pyval list"

text \<open>
  Lines 175 to 190: the three confirmed counters
  \<^verbatim>\<open>(confirmed_counter, confirmed_counter_on_close, confirmed_counter_on_reopen)\<close>,
  or None where the function logs the incomplete confirmed history and returns.
\<close>

definition confirmed_counters :: "history \<Rightarrow> (int \<times> int \<times> int) option" where
  "confirmed_counters confirmed_history =
     (case unchanged confirmed_history of
        u # _ \<Rightarrow>
          Some (0, if u = PBool True then - 1 else 0, if u = PBool True then 1 else 0)
      | [] \<Rightarrow>
          (case (deleted confirmed_history, added confirmed_history) of
             (d # _, _ # _) \<Rightarrow> if d = PBool True then Some (- 1, - 1, 0) else Some (1, 0, 1)
           | _ \<Rightarrow> None))"

text \<open>
  The severity chosen on a status transition (lines 221 to 224 and 231 to 234): the
  unchanged value, overridden by the first value of \<open>changed\<close> when there is one;
  None where the Python local \<^verbatim>\<open>severity\<close> is left unbound.
\<close>

definition transition_severity :: "pyval list \<Rightarrow> pyval list \<Rightarrow> pyval option" where
  "transition_severity unchanged_values changed =
     (case changed of
        s # _ \<Rightarrow> Some s
      | [] \<Rightarrow> (case unchanged_values of s # _ \<Rightarrow> Some s | [] \<Rightarrow> None))"

text \<open>
  The test \<^verbatim>\<open>status_history.added[0] in xs and status_history.deleted[0] in ys\<close> of
  lines 219 and 229: \<^verbatim>\<open>added[0]\<close> is read first and raises IndexError on an empty
  sequence; \<^verbatim>\<open>deleted[0]\<close> is read only when the first test holds.
\<close>

definition status_transition :: "history \<Rightarrow> pyval list \<Rightarrow> pyval list \<Rightarrow> error + bool" where
  "status_transition status_history xs ys =
     (case added status_history of
        [] \<Rightarrow> Inl IndexError
      | a0 # _ \<Rightarrow>
          (if a0 \<in> set xs then
             (case deleted status_history of
                [] \<Rightarrow> Inl IndexError
              | d0 # _ \<Rightarrow> Inr (d0 \<in> set ys))
           else Inr False))"

text \<open>
  A falsy history argument (None, or the blank history of the ORM) is modelled by
  \<open>None\<close>; \<open>Some h\<close> is a history object with its three sequences. The first
  applicable branch of the source decides; reading the unbound local \<^verbatim>\<open>severity\<close>
  raises UnboundLocalError.
\<close>

definition alter_histogram_on_update_general ::
  "date \<Rightarrow> db \<Rightarrow> nat option \<Rightarrow> history option \<Rightarrow> history option \<Rightarrow> history option
     \<Rightarrow> error + db" where
  "alter_histogram_on_update_general today connection workspace_id
       status_history confirmed_history severity_history =
     (case (status_history, confirmed_history, severity_history) of
        (Some sh, Some ch, Some vh) \<Rightarrow>
          (case confirmed_counters ch of
             None \<Rightarrow>
               Inr (logger_error connection
                 ''Confirmed history deleted or added is None. Could not update confirmed value.'')
           | Some (confirmed_counter, confirmed_counter_on_close, confirmed_counter_on_reopen) \<Rightarrow>
               (case unchanged sh of
                  s0 # _ \<Rightarrow>
                    (if unchanged vh \<noteq> [] then
                       (if confirmed_counter \<noteq> 0
                             \<and> s0 \<in> set [STATUS_OPEN, STATUS_RE_OPENED] then
                          Inr (create_or_update_histogram today connection workspace_id
                                 0 0 0 confirmed_counter)
                        else Inr connection)
                     else
                       (case (deleted vh, added vh) of
                          (d0 # _, a0 # _) \<Rightarrow>
                            (case (if d0 \<in> set SEVERITIES_ALLOWED
                                   then dicrease_severities_histogram d0 0 0 0
                                   else (0, 0, 0)) of
                               (medium, high, critical) \<Rightarrow>
                                 (case (if a0 \<in> set SEVERITIES_ALLOWED
                                        then increase_severities_histogram a0 medium high critical
                                        else (medium, high, critical)) of
                                    (medium', high', critical') \<Rightarrow>
                                      Inr (create_or_update_histogram today connection
                                             workspace_id medium' high' critical'
                                             confirmed_counter)))
                        | _ \<Rightarrow>
                            Inr (logger_error
                              (if confirmed_counter \<noteq> 0
                                    \<and> s0 \<in> set [STATUS_OPEN, STATUS_RE_OPENED] then
                                 create_or_update_histogram today connection workspace_id
                                   0 0 0 confirmed_counter
                               else connection)
                              ''Severity history deleted or added is None. Could not update severity histogram.'')))
                | [] \<Rightarrow>
                    (case status_transition sh [STATUS_CLOSED, STATUS_RISK_ACCEPTED]
                            [STATUS_OPEN, STATUS_RE_OPENED] of
                       Inl e \<Rightarrow> Inl e
                     | Inr True \<Rightarrow>
                         (case transition_severity (unchanged vh) (deleted vh) of
                            None \<Rightarrow> Inl UnboundLocalError
                          | Some severity \<Rightarrow>
                              (if severity \<in> set SEVERITIES_ALLOWED then
                                 (case dicrease_severities_histogram severity 0 0 0 of
                                    (medium, high, critical) \<Rightarrow>
                                      Inr (create_or_update_histogram today connection
                                             workspace_id medium high critical
                                             confirmed_counter_on_close))
                               else Inr connection))
                     | Inr False \<Rightarrow>
                         (case status_transition sh [STATUS_OPEN, STATUS_RE_OPENED]
                                 [STATUS_CLOSED, STATUS_RISK_ACCEPTED] of
                            Inl e \<Rightarrow> Inl e
                          | Inr True \<Rightarrow>
                              (case transition_severity (unchanged vh) (added vh) of
                                 None \<Rightarrow> Inl UnboundLocalError
                               | Some severity \<Rightarrow>
                                   (if severity \<in> set SEVERITIES_ALLOWED then
                                      (case increase_severities_histogram severity 0 0 0 of
                                         (medium, high, critical) \<Rightarrow>
                                           Inr (create_or_update_histogram today connection
                                                  workspace_id medium high critical
                                                  confirmed_counter_on_reopen))
                                    else Inr connection))
                          | Inr False \<Rightarrow>
                              (if confirmed_counter \<noteq> 0 then
                                 Inr (create_or_update_histogram today connection workspace_id
                                        0 0 0 confirmed_counter)
                               else Inr connection)))))
      | _ \<Rightarrow> Inr (logger_error connection ''Not all history fields provided''))"

subsection \<open>Bulk deletes and updates issued as queries\<close>

text \<open>The entity a query selects, as \<^verbatim>\<open>desc['type']\<close> of its column descriptions.\<close>

datatype entity = Vulnerability | VulnerabilityGeneric | VulnerabilityWeb | OtherEntity string

text \<open>
  A query over the vulnerability table: its column descriptions, its filter criteria
  as a predicate on rows, and the bound parameters of its compiled statement
  (\<^verbatim>\<open>query.statement.compile(...).params.items()\<close>), named after the column they
  compare.
\<close>

record query =
  column_descriptions :: "entity list"
  q_filter :: "vulnerability \<Rightarrow> bool"
  params :: "(string \<times> pyval) list"

definition query_all :: "query \<Rightarrow> vulnerability list \<Rightarrow> vulnerability list" where
  "query_all q table = filter (q_filter q) table"

definition is_vulnerability_type :: "entity \<Rightarrow> bool" where
  "is_vulnerability_type t =
     (t = Vulnerability \<or> t = VulnerabilityGeneric \<or> t = VulnerabilityWeb)"

definition delete_instance :: "date \<Rightarrow> db \<Rightarrow> vulnerability \<Rightarrow> db" where
  "delete_instance today session inst =
     (if v_status inst \<in> set [STATUS_OPEN, STATUS_RE_OPENED] then
        (if v_severity inst \<in> set SEVERITIES_ALLOWED then
           (case dicrease_severities_histogram (v_severity inst) 0 0 0 of
              (medium, high, critical) \<Rightarrow>
                create_or_update_histogram today session (v_workspace_id inst)
                  medium high critical (if v_confirmed inst = PBool True then - 1 else 0))
         else session)
      else session)"

definition alter_histogram_on_before_compile_delete ::
  "date \<Rightarrow> vulnerability list \<Rightarrow> db \<Rightarrow> query \<Rightarrow> db" where
  "alter_histogram_on_before_compile_delete today table session q =
     fold (\<lambda>desc s.
            if is_vulnerability_type desc
            then fold (\<lambda>inst s'. delete_instance today s' inst) (query_all q table) s
            else s)
       (column_descriptions q) session"

text \<open>
  The stand-in history object built from the target values of a bulk update; the
  dictionary \<^verbatim>\<open>update_context.values\<close> is a map from field names to values.
\<close>

definition get_history_from_context_values ::
  "(string \<rightharpoonup> pyval) \<Rightarrow> string \<Rightarrow> pyval \<Rightarrow> history" where
  "get_history_from_context_values context_values field old_value =
     (case context_values field of
        None \<Rightarrow> \<lparr>added = [], unchanged = [old_value], deleted = []\<rparr>
      | Some v \<Rightarrow>
          (if \<not> py_eq v old_value
           then \<lparr>added = [v], unchanged = [], deleted = [old_value]\<rparr>
           else \<lparr>added = [], unchanged = [old_value], deleted = []\<rparr>))"




definition update_instance ::
  "date \<Rightarrow> (string \<rightharpoonup> pyval) \<Rightarrow> db \<Rightarrow> vulnerability \<Rightarrow> error + db" where
  "update_instance today vals session inst =
     alter_histogram_on_update_general today session (v_workspace_id inst)
       (Some (get_history_from_context_values vals ''status'' (v_status inst)))
       (Some (get_history_from_context_values vals ''confirmed'' (v_confirmed inst)))
       (Some (get_history_from_context_values vals ''severity'' (v_severity inst)))"

text \<open>A loop whose body may raise: the first error ends it.\<close>

fun for_each :: "('s \<Rightarrow> 'a \<Rightarrow> error + 's) \<Rightarrow> 'a list \<Rightarrow> 's \<Rightarrow> error + 's" where
  "for_each body [] s = Inr s"
| "for_each body (x # xs) s =
     (case body s x of Inl e \<Rightarrow> Inl e | Inr s' \<Rightarrow> for_each body xs s')"


subsection \<open>Totals of the histogram\<close>






subsection \<open>Change notifications for hosts and services\<close>

text \<open>
  A naive \<^verbatim>\<open>datetime\<close> of the standard library: the proleptic ordinal of its day
  (\<^verbatim>\<open>toordinal()\<close>) and its time of day. A \<^verbatim>\<open>timedelta\<close> is kept normalised by its
  constructor: \<open>0 \<le> seconds < 86400\<close> and \<open>0 \<le> microseconds < 1000000\<close>, the sign
  carried by the days.
\<close>

record datetime =
  dt_ordinal :: int
  dt_hour :: int
  dt_minute :: int
  dt_second :: int
  dt_microsecond :: int

record timedelta =
  td_days :: int
  td_seconds :: int
  td_microseconds :: int

definition timedelta_new :: "int \<Rightarrow> int \<Rightarrow> int \<Rightarrow> timedelta" where
  "timedelta_new d s us =
     (let total = (d * 86400 + s) * 1000000 + us in
      \<lparr>td_days = total div 86400000000,
       td_seconds = (total mod 86400000000) div 1000000,
       td_microseconds = total mod 1000000\<rparr>)"

text \<open>\<^verbatim>\<open>datetime.__sub__\<close>: the difference of two naive datetimes.\<close>

definition datetime_sub :: "datetime \<Rightarrow> datetime \<Rightarrow> timedelta" where
  "datetime_sub a b =
     timedelta_new (dt_ordinal a - dt_ordinal b)
       ((dt_second a + dt_minute a * 60 + dt_hour a * 3600)
          - (dt_second b + dt_minute b * 60 + dt_hour b * 3600))
       (dt_microsecond a - dt_microsecond b)"

text \<open>
  A Host or Service as the notification hooks read it. \<open>i_ip\<close> and \<open>i_name\<close> are what
  \<^verbatim>\<open>getattr(instance, 'ip', None)\<close> and \<^verbatim>\<open>getattr(instance, 'name', None)\<close> return.
\<close>

record asset =
  i_id :: int
  i_class_name :: string
  i_ip :: pyval
  i_name :: pyval
  i_workspace_name :: string
  create_date :: datetime
  update_date :: datetime

record msg =
  m_id :: int
  m_action :: string
  m_type :: string
  m_name :: pyval
  m_workspace :: string

text \<open>The process-wide queue \<^verbatim>\<open>changes_queue\<close>: \<^verbatim>\<open>put\<close> appends at the end.\<close>

type_synonym changes_queue = "msg list"

definition py_or :: "pyval \<Rightarrow> pyval \<Rightarrow> pyval" where
  "py_or a b = (if truthy a then a else b)"

definition update_object_event :: "changes_queue \<Rightarrow> asset \<Rightarrow> changes_queue" where
  "update_object_event queue inst =
     (let delta = datetime_sub (update_date inst) (create_date inst) in
      if td_seconds delta < 30 then queue
      else queue @
        [\<lparr>m_id = i_id inst, m_action = ''UPDATE'', m_type = i_class_name inst,
          m_name = py_or (i_ip inst) (i_name inst), m_workspace = i_workspace_name inst\<rparr>])"

text \<open>The time between creation and update, in microseconds.\<close>

definition elapsed_microseconds :: "asset \<Rightarrow> int" where
  "elapsed_microseconds inst =
     (let a = update_date inst; b = create_date inst in
      ((dt_ordinal a - dt_ordinal b) * 86400
        + ((dt_second a + dt_minute a * 60 + dt_hour a * 3600)
            - (dt_second b + dt_minute b * 60 + dt_hour b * 3600))) * 1000000
        + (dt_microsecond a - dt_microsecond b))"

subsection \<open>The workspace check on children\<close>

text \<open>
  A workspace-scoped object as the check reads it. A Workspace object is identified by
  a number; \<open>None\<close> is Python's None, also for a missing parent.
\<close>

record parent_ref =
  p_workspace :: "nat option"
  p_workspace_id :: "nat option"

record child =
  c_workspace :: "nat option"
  c_workspace_id :: "nat option"
  c_parent :: "parent_ref option"

definition after_insert_check_child_has_same_workspace :: "child \<Rightarrow> error + unit" where
  "after_insert_check_child_has_same_workspace inserted_instance =
     (case c_parent inserted_instance of
        None \<Rightarrow> Inr ()
      | Some parent \<Rightarrow>
          (if c_workspace inserted_instance \<noteq> p_workspace parent then
             Inl (AssertionError
               ''Conflicting workspace assignation for objects. This should never happen!!!'')
           else if c_workspace_id inserted_instance \<noteq> p_workspace_id parent then
             Inl (AssertionError
               ''Conflicting workspace_id assignation for objects. This should never happen!!!'')
           else Inr ()))"

text \<open>
  A member of the module faraday.server.models, as the registration loop tests it:
  whether it is a class, and whether \<^verbatim>\<open>getattr(obj, 'workspace_id', None)\<close> is truthy
  (a mapped column attribute is).
\<close>

record member =
  mb_name :: string
  mb_isclass :: bool
  mb_workspace_id :: bool

text \<open>A registered listener: the target class, the event, and the hook.\<close>

datatype hook = Check_child_has_same_workspace

type_synonym listener = "string \<times> string \<times> hook"

definition register_workspace_checks :: "member list \<Rightarrow> listener list" where
  "register_workspace_checks members =
     concat (map (\<lambda>obj.
        if mb_isclass obj \<and> mb_workspace_id obj
        then [(mb_name obj, ''after_insert'', Check_child_has_same_workspace),
              (mb_name obj, ''after_update'', Check_child_has_same_workspace)]
        else []) members)"

fun run_hook :: "hook \<Rightarrow> child \<Rightarrow> error + unit" where
  "run_hook Check_child_has_same_workspace inst =
     after_insert_check_child_has_same_workspace inst"

text \<open>
  The ORM fires an event by calling, in registration order, every listener registered
  for the class and the event; an exception of a listener ends the flush.
\<close>

definition fire_event :: "listener list \<Rightarrow> string \<Rightarrow> string \<Rightarrow> child \<Rightarrow> error + unit" where
  "fire_event listeners cls ev inst =
     for_each (\<lambda>u l. run_hook (snd (snd l)) inst)
       (filter (\<lambda>l. fst l = cls \<and> fst (snd l) = ev) listeners) ()"

section \<open>The migration b31fa447f00c\<close>

datatype sa_type = Integer | Date

datatype column = Column (col_name: string) (col_type: sa_type) (col_nullable: bool)

datatype table_constraint =
    ForeignKeyConstraint "string list" "string list"
  | PrimaryKeyConstraint "string list"

record table_def =
  t_name :: string
  t_columns :: "column list"
  t_constraints :: "table_constraint list"

record index_def =
  ix_name :: string
  ix_table :: string
  ix_columns :: "string list"
  ix_unique :: bool

record schema =
  tables :: "table_def list"
  indexes :: "index_def list"

text \<open>
  The operations of the migration tool on a schema. Creating a table or an index whose
  name is taken, and dropping one that does not exist, are errors of the database.
\<close>

definition create_table :: "string \<Rightarrow> column list \<Rightarrow> table_constraint list \<Rightarrow> schema \<Rightarrow> error + schema" where
  "create_table name cols cons s =
     (if name \<in> set (map t_name (tables s)) then Inl (ProgrammingError name)
      else Inr (s\<lparr>tables := tables s @
                  [\<lparr>t_name = name, t_columns = cols, t_constraints = cons\<rparr>]\<rparr>))"

definition create_index :: "string \<Rightarrow> string \<Rightarrow> string list \<Rightarrow> bool \<Rightarrow> schema \<Rightarrow> error + schema" where
  "create_index name table_name cols uniq s =
     (if name \<in> set (map ix_name (indexes s)) \<or> table_name \<notin> set (map t_name (tables s))
      then Inl (ProgrammingError name)
      else Inr (s\<lparr>indexes := indexes s @
                  [\<lparr>ix_name = name, ix_table = table_name, ix_columns = cols,
                    ix_unique = uniq\<rparr>]\<rparr>))"

definition drop_index :: "string \<Rightarrow> string \<Rightarrow> schema \<Rightarrow> error + schema" where
  "drop_index name table_name s =
     (if name \<notin> set (map ix_name (indexes s)) then Inl (ProgrammingError name)
      else Inr (s\<lparr>indexes := filter (\<lambda>i. ix_name i \<noteq> name) (indexes s)\<rparr>))"

definition drop_table :: "string \<Rightarrow> schema \<Rightarrow> error + schema" where
  "drop_table name s =
     (if name \<notin> set (map t_name (tables s)) then Inl (ProgrammingError name)
      else Inr (s\<lparr>tables := filter (\<lambda>t. t_name t \<noteq> name) (tables s)\<rparr>))"

definition vulnerability_hit_count_columns :: "column list" where
  "vulnerability_hit_count_columns =
     [
      Column ''id'' Integer False,
      Column ''workspace_id'' Integer False,
      Column ''date'' Date False,
      Column ''low_open_unconfirmed'' Integer False,
      Column ''low_open_confirmed'' Integer False,
      Column ''low_risk_accepted_unconfirmed'' Integer False,
      Column ''low_risk_accepted_confirmed'' Integer False,
      Column ''low_re_opened_unconfirmed'' Integer False,
      Column ''low_re_opened_confirmed'' Integer False,
      Column ''low_closed_unconfirmed'' Integer False,
      Column ''low_closed_confirmed'' Integer False,
      Column ''medium_open_unconfirmed'' Integer False,
      Column ''medium_open_confirmed'' Integer False,
      Column ''medium_risk_accepted_unconfirmed'' Integer False,
      Column ''medium_risk_accepted_confirmed'' Integer False,
      Column ''medium_re_opened_unconfirmed'' Integer False,
      Column ''medium_re_opened_confirmed'' Integer False,
      Column ''medium_closed_unconfirmed'' Integer False,
      Column ''medium_closed_confirmed'' Integer False,
      Column ''high_open_unconfirmed'' Integer False,
      Column ''high_open_confirmed'' Integer False,
      Column ''high_risk_accepted_unconfirmed'' Integer False,
      Column ''high_risk_accepted_confirmed'' Integer False,
      Column ''high_re_opened_unconfirmed'' Integer False,
      Column ''high_re_opened_confirmed'' Integer False,
      Column ''high_closed_unconfirmed'' Integer False,
      Column ''high_closed_confirmed'' Integer False,
      Column ''critical_open_unconfirmed'' Integer False,
      Column ''critical_open_confirmed'' Integer False,
      Column ''critical_risk_accepted_unconfirmed'' Integer False,
      Column ''critical_risk_accepted_confirmed'' Integer False,
      Column ''critical_re_opened_unconfirmed'' Integer False,
      Column ''critical_re_opened_confirmed'' Integer False,
      Column ''critical_closed_unconfirmed'' Integer False,
      Column ''critical_closed_confirmed'' Integer False
     ]"

definition vulnerability_hit_count_constraints :: "table_constraint list" where
  "vulnerability_hit_count_constraints =
     [ForeignKeyConstraint [''workspace_id''] [''workspace.id''],
      PrimaryKeyConstraint [''id'']]"

definition upgrade :: "schema \<Rightarrow> error + schema" where
  "upgrade s =
     (case create_table ''vulnerability_hit_count'' vulnerability_hit_count_columns
             vulnerability_hit_count_constraints s of
        Inl e \<Rightarrow> Inl e
      | Inr s' \<Rightarrow>
          create_index ''ix_vulnerability_hit_count_workspace_id'' ''vulnerability_hit_count''
            [''workspace_id''] False s')"

definition downgrade :: "schema \<Rightarrow> error + schema" where
  "downgrade s =
     (case drop_index ''ix_vulnerability_hit_count_workspace_id'' ''vulnerability_hit_count'' s of
        Inl e \<Rightarrow> Inl e
      | Inr s' \<Rightarrow> drop_table ''vulnerability_hit_count'' s')"

text \<open>
  The counter names the spec describes: one for each severity, status and confirmation
  state, in this order.
\<close>

definition counter_names :: "string list" where
  "counter_names =
     concat (map (\<lambda>severity.
       concat (map (\<lambda>status.
         map (\<lambda>confirmation. severity @ ''_'' @ status @ ''_'' @ confirmation)
           [''unconfirmed'', ''confirmed''])
         [''open'', ''risk_accepted'', ''re_opened'', ''closed'']))
       [''low'', ''medium'', ''high'', ''critical''])"

section \<open>server/api/base.py: the generic views\<close>

subsection \<open>Model objects and the session\<close>

record workspace =
  ws_id :: nat
  ws_name :: string

text \<open>
  An object of the view's model class: its primary key (None until it is flushed), the
  workspace it is related to, and its other attributes by name. The rows of the model's
  table are the flushed objects.
\<close>

record model_obj =
  o_id :: "nat option"
  o_workspace :: "workspace option"
  o_attrs :: "(string \<times> pyval) list"

text \<open>\<^verbatim>\<open>getattr(obj, field_name)\<close> for a mapped attribute; an unset attribute is None.\<close>

definition attr :: "model_obj \<Rightarrow> string \<Rightarrow> pyval" where
  "attr obj field_name =
     (if field_name = ''id'' then (case o_id obj of None \<Rightarrow> PNone | Some i \<Rightarrow> PInt (int i))
      else (case map_of (o_attrs obj) field_name of None \<Rightarrow> PNone | Some v \<Rightarrow> v))"

text \<open>
  The database session: the tables of workspaces and of the model class, the pending
  new and modified objects, the next primary key, and the number of rollbacks so far.
\<close>

record session =
  s_workspaces :: "workspace list"
  s_objects :: "model_obj list"
  s_new :: "model_obj list"
  s_dirty :: "model_obj list"
  s_next_pk :: nat
  s_rollbacks :: nat

definition rollback :: "session \<Rightarrow> session" where
  "rollback s = s\<lparr>s_new := [], s_dirty := [], s_rollbacks := Suc (s_rollbacks s)\<rparr>"

definition add :: "session \<Rightarrow> model_obj \<Rightarrow> session" where
  "add s obj =
     (if o_id obj = None then s\<lparr>s_new := s_new s @ [obj]\<rparr>
      else s\<lparr>s_dirty := s_dirty s @ [obj]\<rparr>)"

fun flush_new :: "model_obj list \<Rightarrow> nat \<Rightarrow> model_obj list \<times> nat" where
  "flush_new [] n = ([], n)"
| "flush_new (x # xs) n =
     (case flush_new xs (Suc n) of (ys, n') \<Rightarrow> (x\<lparr>o_id := Some n\<rparr> # ys, n'))"

definition commit :: "session \<Rightarrow> session" where
  "commit s =
     (case flush_new (s_new s) (s_next_pk s) of
        (inserted, n) \<Rightarrow>
          s\<lparr>s_objects :=
              map (\<lambda>r. case find (\<lambda>d. o_id d = o_id r) (rev (s_dirty s)) of
                          None \<Rightarrow> r | Some d \<Rightarrow> d) (s_objects s) @ inserted,
            s_new := [], s_dirty := [], s_next_pk := n\<rparr>)"

text \<open>
  An object after \<^verbatim>\<open>add\<close> and \<^verbatim>\<open>commit\<close>: the flush gives a new object the primary
  key of its place behind the objects already pending.
\<close>

definition added_object :: "session \<Rightarrow> model_obj \<Rightarrow> model_obj" where
  "added_object s obj =
     (if o_id obj = None then obj\<lparr>o_id := Some (s_next_pk s + length (s_new s))\<rparr>
      else obj)"

text \<open>\<^verbatim>\<open>Query.one()\<close> and \<^verbatim>\<open>Query.one_or_none()\<close> on the rows a query selects.\<close>

fun one :: "'a list \<Rightarrow> error + 'a" where
  "one [] = Inl NoResultFound"
| "one [x] = Inr x"
| "one (x # y # xs) = Inl MultipleResultsFound"

fun one_or_none :: "'a list \<Rightarrow> error + 'a option" where
  "one_or_none [] = Inr None"
| "one_or_none [x] = Inr (Some x)"
| "one_or_none (x # y # xs) = Inl MultipleResultsFound"

text \<open>\<^verbatim>\<open>'%s' % value\<close>: the string form of a value.\<close>

fun digits :: "nat \<Rightarrow> string" where
  "digits n =
     (if n < 10 then [char_of (48 + n)]
      else digits (n div 10) @ [char_of (48 + n mod 10)])"

declare digits.simps [simp del]

fun py_str :: "pyval \<Rightarrow> string" where
  "py_str PNone = ''None''"
| "py_str (PBool b) = (if b then ''True'' else ''False'')"
| "py_str (PInt i) = (if i < 0 then ''-'' @ digits (nat (- i)) else digits (nat i))"
| "py_str (PStr s) = s"

subsection \<open>GenericView\<close>

text \<open>
  The configuration of a view class. \<open>workspaced\<close> tells whether the class derives from
  GenericWorkspacedView, which decides the methods a call on \<^verbatim>\<open>self\<close> reaches.
  \<open>lookup_field_type\<close> converts the string of the URL (\<open>None\<close> where the conversion
  raises ValueError); the database compares a column with the string of the URL as
  with the converted value.
\<close>

record view =
  workspaced :: bool
  unique_fields :: "string list"
  lookup_field :: string
  lookup_field_type :: "string \<Rightarrow> pyval option"

definition validate_object_id :: "view \<Rightarrow> string \<Rightarrow> error + unit" where
  "validate_object_id v object_id =
     (case lookup_field_type v object_id of
        None \<Rightarrow> Inl (HTTPException 404 ''Invalid format of lookup field'')
      | Some k \<Rightarrow> Inr ())"

text \<open>The filter \<^verbatim>\<open>self._get_lookup_field() == object_id\<close>.\<close>

definition lookup_matches :: "view \<Rightarrow> string \<Rightarrow> model_obj \<Rightarrow> bool" where
  "lookup_matches v object_id r =
     (Some (attr r (lookup_field v)) = lookup_field_type v object_id)"

definition not_found_message :: "string \<Rightarrow> string" where
  "not_found_message object_id =
     ''Object with id '' @ [CHR 0x22] @ object_id @ [CHR 0x22] @ '' not found''"

definition GenericView_get_base_query :: "session \<Rightarrow> model_obj list" where
  "GenericView_get_base_query s = s_objects s"

definition GenericView_get_object :: "view \<Rightarrow> session \<Rightarrow> string \<Rightarrow> error + model_obj" where
  "GenericView_get_object v s object_id =
     (case validate_object_id v object_id of
        Inl e \<Rightarrow> Inl e
      | Inr u \<Rightarrow>
          (case one (filter (lookup_matches v object_id) (GenericView_get_base_query s)) of
             Inl NoResultFound \<Rightarrow> Inl (HTTPException 404 (not_found_message object_id))
           | Inl e \<Rightarrow> Inl e
           | Inr obj \<Rightarrow> Inr obj))"

text \<open>The stub of GenericView: it checks nothing and returns True.\<close>

definition GenericView_validate_uniqueness ::
  "view \<Rightarrow> session \<Rightarrow> model_obj \<Rightarrow> string option \<Rightarrow> (error + unit) \<times> session" where
  "GenericView_validate_uniqueness v s obj object_id = (Inr (), s)"

subsection \<open>GenericWorkspacedView\<close>

definition get_workspace :: "session \<Rightarrow> string \<Rightarrow> error + workspace" where
  "get_workspace s workspace_name =
     (case one (filter (\<lambda>w. ws_name w = workspace_name) (s_workspaces s)) of
        Inl NoResultFound \<Rightarrow> Inl (HTTPException 404 (''No such workspace: '' @ workspace_name))
      | Inl e \<Rightarrow> Inl e
      | Inr ws \<Rightarrow> Inr ws)"

text \<open>\<^verbatim>\<open>base.join(Workspace)\<close>: every row paired with the workspace its foreign key names.\<close>

definition join_workspace :: "model_obj list \<Rightarrow> workspace list \<Rightarrow> (model_obj \<times> workspace) list" where
  "join_workspace rows wss =
     concat (map (\<lambda>r. map (\<lambda>w. (r, w))
                         (filter (\<lambda>w. map_option ws_id (o_workspace r) = Some (ws_id w)) wss))
               rows)"

definition workspace_rows :: "session \<Rightarrow> workspace \<Rightarrow> model_obj list" where
  "workspace_rows s ws =
     map fst (filter (\<lambda>rw. ws_id (snd rw) = ws_id ws)
                (join_workspace (GenericView_get_base_query s) (s_workspaces s)))"

definition GenericWorkspacedView_get_base_query ::
  "session \<Rightarrow> string \<Rightarrow> error + model_obj list" where
  "GenericWorkspacedView_get_base_query s workspace_name =
     (case get_workspace s workspace_name of
        Inl e \<Rightarrow> Inl e
      | Inr ws \<Rightarrow> Inr (workspace_rows s ws))"

definition GenericWorkspacedView_get_object ::
  "view \<Rightarrow> session \<Rightarrow> string \<Rightarrow> string \<Rightarrow> error + model_obj" where
  "GenericWorkspacedView_get_object v s object_id workspace_name =
     (case validate_object_id v object_id of
        Inl e \<Rightarrow> Inl e
      | Inr u \<Rightarrow>
          (case GenericWorkspacedView_get_base_query s workspace_name of
             Inl e \<Rightarrow> Inl e
           | Inr base \<Rightarrow>
               (case one (filter (lookup_matches v object_id) base) of
                  Inl NoResultFound \<Rightarrow> Inl (HTTPException 404 (not_found_message object_id))
                | Inl e \<Rightarrow> Inl e
                | Inr obj \<Rightarrow> Inr obj)))"

text \<open>
  The query of one round of the uniqueness loop: the rows of the workspace with the
  object's value in the field, without the row of \<open>object_id\<close> when one is given.
\<close>

definition unique_query ::
  "view \<Rightarrow> model_obj list \<Rightarrow> model_obj \<Rightarrow> string option \<Rightarrow> string \<Rightarrow> model_obj list" where
  "unique_query v base obj object_id field_name =
     (let query = filter (\<lambda>r. attr r field_name = attr obj field_name) base in
      case object_id of
        None \<Rightarrow> query
      | Some i \<Rightarrow> filter (\<lambda>r. Some (attr r ''id'') \<noteq> lookup_field_type v i) query)"

definition existing_value_message :: "string \<Rightarrow> pyval \<Rightarrow> string" where
  "existing_value_message field_name val =
     ''Existing value for '' @ field_name @ '' field: '' @ py_str val"

fun validate_unique_fields ::
  "view \<Rightarrow> session \<Rightarrow> model_obj \<Rightarrow> workspace \<Rightarrow> string option \<Rightarrow> string list
     \<Rightarrow> (error + unit) \<times> session" where
  "validate_unique_fields v s obj ws object_id [] = (Inr (), s)"
| "validate_unique_fields v s obj ws object_id (field_name # rest) =
     (case GenericWorkspacedView_get_base_query s (ws_name ws) of
        Inl e \<Rightarrow> (Inl e, s)
      | Inr base \<Rightarrow>
          (case one_or_none (unique_query v base obj object_id field_name) of
             Inl e \<Rightarrow> (Inl e, s)
           | Inr (Some other) \<Rightarrow>
               (Inl (HTTPException 422
                       (existing_value_message field_name (attr obj field_name))),
                rollback s)
           | Inr None \<Rightarrow> validate_unique_fields v s obj ws object_id rest))"

definition GenericWorkspacedView_validate_uniqueness ::
  "view \<Rightarrow> session \<Rightarrow> model_obj \<Rightarrow> string option \<Rightarrow> (error + unit) \<times> session" where
  "GenericWorkspacedView_validate_uniqueness v s obj object_id =
     (case o_workspace obj of
        None \<Rightarrow>
          (Inl (AssertionError
             ''Object must have a workspace attribute set to call _validate_uniqueness''), s)
      | Some ws \<Rightarrow> validate_unique_fields v s obj ws object_id (unique_fields v))"

text \<open>The call \<^verbatim>\<open>self._validate_uniqueness(obj, object_id)\<close> on a view.\<close>

definition validate_uniqueness ::
  "view \<Rightarrow> session \<Rightarrow> model_obj \<Rightarrow> string option \<Rightarrow> (error + unit) \<times> session" where
  "validate_uniqueness v s obj object_id =
     (if workspaced v then GenericWorkspacedView_validate_uniqueness v s obj object_id
      else GenericView_validate_uniqueness v s obj object_id)"


subsection \<open>The create and update mixins\<close>

definition CreateMixin_perform_create ::
  "view \<Rightarrow> session \<Rightarrow> model_obj \<Rightarrow> (error + model_obj) \<times> session" where
  "CreateMixin_perform_create v s obj =
     (case validate_uniqueness v s obj None of
        (Inl e, s') \<Rightarrow> (Inl e, s')
      | (Inr u, s') \<Rightarrow> (Inr obj, add s' obj))"

definition CreateWorkspacedMixin_perform_create ::
  "view \<Rightarrow> session \<Rightarrow> model_obj \<Rightarrow> string \<Rightarrow> (error + model_obj) \<times> session" where
  "CreateWorkspacedMixin_perform_create v s data workspace_name =
     (if s_new s \<noteq> [] then (Inl (AssertionError []), s)
      else
        (case get_workspace s workspace_name of
           Inl e \<Rightarrow> (Inl e, s)
         | Inr ws \<Rightarrow>
             (let obj = data\<lparr>o_workspace := Some ws\<rparr> in
              case validate_uniqueness v s obj None of
                (Inl e, s') \<Rightarrow> (Inl e, s')
              | (Inr u, s') \<Rightarrow> (Inr (added_object s' obj), commit (add s' obj)))))"



section \<open>Example inputs\<close>

text \<open>A histogram with one row for workspace 1 on day 0, every counter at 5.\<close>

definition example_db :: db where
  "example_db =
     \<lparr>severities_histogram =
        [\<lparr>h_id = 1, h_workspace_id = 1, h_date = 0, h_medium = 5, h_high = 5,
          h_critical = 5, h_confirmed = 5\<rparr>],
      next_id = 2, error_log = []\<rparr>"

text \<open>An open vulnerability is closed; its confirmed flag stays true.\<close>

definition closing_status :: history where
  "closing_status = \<lparr>added = [STATUS_CLOSED], unchanged = [], deleted = [STATUS_OPEN]\<rparr>"

definition confirmed_unchanged :: history where
  "confirmed_unchanged = \<lparr>added = [], unchanged = [PBool True], deleted = []\<rparr>"

text \<open>In the same update the severity goes from high to medium.\<close>

definition severity_high_to_medium :: history where
  "severity_high_to_medium =
     \<lparr>added = [SEVERITY_MEDIUM], unchanged = [], deleted = [SEVERITY_HIGH]\<rparr>"

text \<open>
  A severity history whose old value is not known: the new value is there, the
  deleted one is missing.
\<close>

definition severity_old_value_missing :: history where
  "severity_old_value_missing = \<lparr>added = [SEVERITY_HIGH], unchanged = [], deleted = []\<rparr>"

text \<open>
  A host created on 2020-01-01 at 00:00:00 and updated on 2020-01-02 at 00:00:05,
  one day and five seconds later.
\<close>

definition host_updated_next_day :: asset where
  "host_updated_next_day =
     \<lparr>i_id = 1, i_class_name = ''Host'', i_ip = PStr ''10.0.0.1'', i_name = PNone,
      i_workspace_name = ''ws'',
      create_date = \<lparr>dt_ordinal = 737425, dt_hour = 0, dt_minute = 0, dt_second = 0,
                      dt_microsecond = 0\<rparr>,
      update_date = \<lparr>dt_ordinal = 737426, dt_hour = 0, dt_minute = 0, dt_second = 5,
                      dt_microsecond = 0\<rparr>\<rparr>"

text \<open>An open, confirmed vulnerability of workspace 1 with the untracked severity low.\<close>

definition low_vulnerability :: vulnerability where
  "low_vulnerability =
     \<lparr>v_id = 7, v_workspace_id = Some 1, v_status = STATUS_OPEN, v_severity = PStr ''low'',
      v_confirmed = PBool True\<rparr>"

definition delete_low_query :: query where
  "delete_low_query =
     \<lparr>column_descriptions = [Vulnerability], q_filter = (\<lambda>v. v_id v = 7), params = []\<rparr>"

text \<open>A module with one mapped class, and a child assigned to another workspace than its parent.\<close>

definition example_members :: "member list" where
  "example_members = [\<lparr>mb_name = ''Service'', mb_isclass = True, mb_workspace_id = True\<rparr>]"

definition conflicting_child :: child where
  "conflicting_child =
     \<lparr>c_workspace = Some 1, c_workspace_id = Some 1,
      c_parent = Some \<lparr>p_workspace = Some 2, p_workspace_id = Some 2\<rparr>\<rparr>"


definition high_vulnerability :: vulnerability where
  "high_vulnerability =
     \<lparr>v_id = 8, v_workspace_id = Some 1, v_status = STATUS_OPEN, v_severity = SEVERITY_HIGH,
      v_confirmed = PBool True\<rparr>"



text \<open>A schema that holds the table workspace only.\<close>

definition schema_with_workspace :: schema where
  "schema_with_workspace =
     \<lparr>tables = [\<lparr>t_name = ''workspace'', t_columns = [Column ''id'' Integer False],
                 t_constraints = [PrimaryKeyConstraint [''id'']]\<rparr>],
      indexes = []\<rparr>"

text \<open>
  A workspace with hosts named a and b, the same with two hosts named a, and views whose
  unique field is the name: one looks objects up by name, the other by a decimal id.
\<close>

definition example_workspace :: workspace where
  "example_workspace = \<lparr>ws_id = 1, ws_name = ''ws''\<rparr>"

definition host_a1 :: model_obj where
  "host_a1 = \<lparr>o_id = Some 1, o_workspace = Some example_workspace, o_attrs = [(''name'', PStr ''a'')]\<rparr>"

definition host_a2 :: model_obj where
  "host_a2 = \<lparr>o_id = Some 2, o_workspace = Some example_workspace, o_attrs = [(''name'', PStr ''a'')]\<rparr>"

definition host_b :: model_obj where
  "host_b = \<lparr>o_id = Some 3, o_workspace = Some example_workspace, o_attrs = [(''name'', PStr ''b'')]\<rparr>"



definition session_one_a :: session where
  "session_one_a = \<lparr>s_workspaces = [example_workspace], s_objects = [host_a1, host_b],
     s_new = [], s_dirty = [], s_next_pk = 4, s_rollbacks = 0\<rparr>"

definition session_two_a :: session where
  "session_two_a = \<lparr>s_workspaces = [example_workspace], s_objects = [host_a1, host_a2],
     s_new = [], s_dirty = [], s_next_pk = 3, s_rollbacks = 0\<rparr>"


definition names_view :: view where
  "names_view = \<lparr>workspaced = True, unique_fields = [''name''], lookup_field = ''name'',
     lookup_field_type = (\<lambda>s. Some (PStr s))\<rparr>"






section \<open>Properties of the event layer\<close>

subsection \<open>Shared lemmas\<close>

lemma for_each_const_Inr: "for_each (\<lambda>u l. Inr ()) xs () = Inr ()"
  by (induction xs) auto

lemma for_each_const_Inl: "xs \<noteq> [] \<Longrightarrow> for_each (\<lambda>u l. Inl e) xs s = Inl e"
  by (cases xs) auto

lemma int_div_less_iff:
  fixes x k n :: int
  assumes "0 < k"
  shows "(x div k < n) = (x < n * k)"
proof
  have split: "x = (x div k) * k + x mod k" by simp
  have lo: "0 \<le> x mod k" and hi: "x mod k < k" using assms by simp_all
  {
    assume "x div k < n"
    then have "x div k + 1 \<le> n" by simp
    then have "(x div k + 1) * k \<le> n * k" using assms by (intro mult_right_mono) simp_all
    then have "(x div k) * k + k \<le> n * k" by (simp add: algebra_simps)
    then show "x < n * k" using split hi by linarith
  }
  {
    assume less: "x < n * k"
    show "x div k < n"
    proof (rule ccontr)
      assume "\<not> x div k < n"
      then have "n \<le> x div k" by simp
      then have "n * k \<le> (x div k) * k" using assms by (intro mult_right_mono) simp_all
      then show False using less split lo by linarith
    qed
  }
qed

subsection \<open>Closing a vulnerability\<close>

text \<open>
  Claim C1 says that on a transition from open or re-opened to closed or risk-accepted
  the counter of the new (added) severity is decremented when the severity changes in
  the same update. The code reads \<^verbatim>\<open>severity_history.deleted[0]\<close> there: in the example
  the severity goes from high to medium, and the update decrements the counter of high
  and leaves the counter of medium alone.
\<close>

theorem close_uses_deleted_severity_counterexample:
  "alter_histogram_on_update_general 0 example_db (Some 1)
       (Some closing_status) (Some confirmed_unchanged) (Some severity_high_to_medium)
     = Inr (sql_update 1 0 (- 1) 0 (- 1) example_db)
   \<and> sql_update 1 0 (- 1) 0 (- 1) example_db \<noteq> sql_update 1 (- 1) 0 0 (- 1) example_db"
proof
  show "alter_histogram_on_update_general 0 example_db (Some 1)
       (Some closing_status) (Some confirmed_unchanged) (Some severity_high_to_medium)
     = Inr (sql_update 1 0 (- 1) 0 (- 1) example_db)"
    by (simp add: alter_histogram_on_update_general_def example_db_def closing_status_def
        confirmed_unchanged_def severity_high_to_medium_def confirmed_counters_def
        status_transition_def transition_severity_def model_constants
        dicrease_severities_histogram_def create_or_update_histogram_def
        histogram_first_def sql_update_def)
  show "sql_update 1 0 (- 1) 0 (- 1) example_db \<noteq> sql_update 1 (- 1) 0 0 (- 1) example_db"
    by (simp add: sql_update_def example_db_def add_deltas_def)
qed

text \<open>
  Claim C1, amended: when the status goes from open or re-opened to closed or
  risk-accepted and the severity in effect before the update is tracked (the deleted
  value if the severity changes in the same update, else the unchanged value), the
  histogram update subtracts 1 from the counter of that severity and applies a confirmed
  delta of -1 if confirmed was true before the close and 0 otherwise.
\<close>

theorem close_subtracts_previous_severity:
  assumes st: "unchanged sh = []" "added sh = a # as" "deleted sh = d # ds"
    and a: "a \<in> set [STATUS_CLOSED, STATUS_RISK_ACCEPTED]"
    and d: "d \<in> set [STATUS_OPEN, STATUS_RE_OPENED]"
    and sev: "transition_severity (unchanged vh) (deleted vh) = Some severity"
    and tracked: "severity \<in> set SEVERITIES_ALLOWED"
    and conf: "unchanged ch = cb # us
                 \<or> (unchanged ch = [] \<and> deleted ch = cb # cs \<and> added ch \<noteq> [])"
  shows "alter_histogram_on_update_general today c ws (Some sh) (Some ch) (Some vh) =
     Inr (create_or_update_histogram today c ws
            (if severity = SEVERITY_MEDIUM then - 1 else 0)
            (if severity = SEVERITY_HIGH then - 1 else 0)
            (if severity = SEVERITY_CRITICAL then - 1 else 0)
            (if cb = PBool True then - 1 else 0))"
proof -
  have tr: "status_transition sh [STATUS_CLOSED, STATUS_RISK_ACCEPTED]
              [STATUS_OPEN, STATUS_RE_OPENED] = Inr True"
    using st a d by (simp add: status_transition_def)
  have "\<exists>cc cr. confirmed_counters ch = Some (cc, if cb = PBool True then - 1 else 0, cr)"
    using conf by (cases "added ch") (auto simp: confirmed_counters_def)
  then obtain cc cr
    where cc: "confirmed_counters ch = Some (cc, if cb = PBool True then - 1 else 0, cr)"
    by blast
  show ?thesis
    using tracked
    by (simp add: alter_histogram_on_update_general_def st tr cc sev
        dicrease_severities_histogram_def)
qed

theorem close_subtracts_previous_severity_witness:
  "alter_histogram_on_update_general 0 example_db (Some 1)
       (Some closing_status) (Some confirmed_unchanged) (Some severity_high_to_medium)
     = Inr (create_or_update_histogram 0 example_db (Some 1) 0 (- 1) 0 (- 1))"
  using close_subtracts_previous_severity
    [where sh = closing_status and a = STATUS_CLOSED and as = "[]" and d = STATUS_OPEN
       and ds = "[]" and vh = severity_high_to_medium and severity = SEVERITY_HIGH
       and ch = confirmed_unchanged and cb = "PBool True" and us = "[]" and cs = "[]"
       and today = 0 and c = example_db and ws = "Some 1"]
  by (simp add: closing_status_def confirmed_unchanged_def severity_high_to_medium_def
      transition_severity_def model_constants)

subsection \<open>Incomplete histories\<close>

text \<open>The cases the function does log and skip.\<close>

lemma absent_history_is_logged:
  assumes "status_history = None \<or> confirmed_history = None \<or> severity_history = None"
  shows "alter_histogram_on_update_general today c ws status_history confirmed_history
           severity_history = Inr (logger_error c ''Not all history fields provided'')"
  using assms
  by (auto simp: alter_histogram_on_update_general_def split: option.splits)

lemma incomplete_confirmed_history_is_logged:
  assumes "unchanged ch = []" "deleted ch = [] \<or> added ch = []"
  shows "alter_histogram_on_update_general today c ws (Some sh) (Some ch) (Some vh) =
           Inr (logger_error c
             ''Confirmed history deleted or added is None. Could not update confirmed value.'')"
proof -
  have "confirmed_counters ch = None"
    using assms by (auto simp: confirmed_counters_def split: list.splits)
  then show ?thesis by (simp add: alter_histogram_on_update_general_def)
qed

lemma none_workspace_is_logged:
  "create_or_update_histogram today c None medium high critical confirmed =
     logger_error c ''Workspace with None value. Histogram could not be updated''"
  by (simp add: create_or_update_histogram_def)

text \<open>
  Claim C7 says that an update with incomplete history information is logged and skipped
  without raising. On a closing transition whose severity history has its new value but
  no deleted and no unchanged value, the local \<^verbatim>\<open>severity\<close> is never assigned and the
  function raises UnboundLocalError.
\<close>

theorem incomplete_severity_history_raises:
  "alter_histogram_on_update_general today c (Some 1)
       (Some closing_status) (Some confirmed_unchanged) (Some severity_old_value_missing)
     = Inl UnboundLocalError"
  by (simp add: alter_histogram_on_update_general_def closing_status_def
      confirmed_unchanged_def severity_old_value_missing_def confirmed_counters_def
      status_transition_def transition_severity_def model_constants)

subsection \<open>Update notifications\<close>

lemma td_seconds_sub:
  "td_seconds (datetime_sub (update_date inst) (create_date inst)) =
     (elapsed_microseconds inst mod 86400000000) div 1000000"
  by (simp add: datetime_sub_def timedelta_new_def elapsed_microseconds_def Let_def)

lemma update_event_suppressed_iff:
  "(update_object_event queue inst = queue) \<longleftrightarrow>
     (elapsed_microseconds inst mod 86400000000) div 1000000 < 30"
  by (simp add: update_object_event_def td_seconds_sub Let_def)

text \<open>Within the first day after creation the 30 seconds are counted as the spec says.\<close>

lemma update_event_first_day:
  assumes "0 \<le> elapsed_microseconds inst" "elapsed_microseconds inst < 86400000000"
  shows "(update_object_event queue inst = queue) \<longleftrightarrow> elapsed_microseconds inst < 30000000"
proof -
  have "elapsed_microseconds inst mod 86400000000 = elapsed_microseconds inst"
    using assms by simp
  moreover have "(elapsed_microseconds inst div 1000000 < 30)
                   = (elapsed_microseconds inst < 30000000)"
    using int_div_less_iff[of 1000000 "elapsed_microseconds inst" 30] by simp
  ultimately show ?thesis by (simp add: update_event_suppressed_iff)
qed

text \<open>
  Claim C4 says that an update is announced if and only if at least 30 seconds lie
  between creation and update. The code tests \<^verbatim>\<open>delta.seconds\<close>, the seconds within
  the day: a host updated one day and five seconds after its creation (86405 seconds)
  has \<^verbatim>\<open>delta.seconds = 5\<close>, and nothing is enqueued.
\<close>

theorem update_after_one_day_is_suppressed:
  "elapsed_microseconds host_updated_next_day = 86405 * 1000000
   \<and> update_object_event [] host_updated_next_day = []"
  by (simp add: host_updated_next_day_def elapsed_microseconds_def update_object_event_def
      datetime_sub_def timedelta_new_def)

subsection \<open>The workspace of a child\<close>

lemma run_hook_check: "run_hook h inst = after_insert_check_child_has_same_workspace inst"
  by (cases h) simp

lemma workspace_check_registered:
  assumes "obj \<in> set members" "mb_isclass obj" "mb_workspace_id obj"
    "ev = ''after_insert'' \<or> ev = ''after_update''"
  shows "filter (\<lambda>l. fst l = mb_name obj \<and> fst (snd l) = ev)
           (register_workspace_checks members) \<noteq> []"
proof -
  have "(mb_name obj, ev, Check_child_has_same_workspace)
          \<in> set (register_workspace_checks members)"
    using assms by (auto simp: register_workspace_checks_def)
  then show ?thesis by (force simp: filter_empty_conv)
qed

text \<open>
  Claim C5: for every class of the models module with a workspace_id attribute, the
  check runs after every insert and after every update; for an object with a parent
  it raises AssertionError when the workspace or the workspace_id differs from the
  parent's, and passes when both agree.
\<close>

theorem child_workspace_is_asserted:
  assumes "obj \<in> set members" "mb_isclass obj" "mb_workspace_id obj"
    "ev = ''after_insert'' \<or> ev = ''after_update''" "c_parent inst = Some parent"
  shows "(c_workspace inst \<noteq> p_workspace parent \<or> c_workspace_id inst \<noteq> p_workspace_id parent
            \<longrightarrow> (\<exists>m. fire_event (register_workspace_checks members) (mb_name obj) ev inst
                      = Inl (AssertionError m)))
       \<and> (c_workspace inst = p_workspace parent \<and> c_workspace_id inst = p_workspace_id parent
            \<longrightarrow> fire_event (register_workspace_checks members) (mb_name obj) ev inst = Inr ())"
proof -
  let ?ls = "filter (\<lambda>l. fst l = mb_name obj \<and> fst (snd l) = ev)
               (register_workspace_checks members)"
  have ne: "?ls \<noteq> []" using workspace_check_registered[OF assms(1-4)] .
  have fe: "fire_event (register_workspace_checks members) (mb_name obj) ev inst =
        for_each (\<lambda>u l. after_insert_check_child_has_same_workspace inst) ?ls ()"
    by (simp add: fire_event_def run_hook_check)
  show ?thesis
  proof (intro conjI impI)
    assume "c_workspace inst \<noteq> p_workspace parent
              \<or> c_workspace_id inst \<noteq> p_workspace_id parent"
    then have "\<exists>m. after_insert_check_child_has_same_workspace inst = Inl (AssertionError m)"
      using assms(5) by (auto simp: after_insert_check_child_has_same_workspace_def)
    then obtain m
      where m: "after_insert_check_child_has_same_workspace inst = Inl (AssertionError m)"
      by blast
    have "for_each (\<lambda>u l. (Inl (AssertionError m) :: error + unit)) ?ls ()
            = Inl (AssertionError m)"
      by (rule for_each_const_Inl[OF ne])
    then have "fire_event (register_workspace_checks members) (mb_name obj) ev inst
                 = Inl (AssertionError m)"
      by (simp add: fe m)
    then show "\<exists>m. fire_event (register_workspace_checks members) (mb_name obj) ev inst
                 = Inl (AssertionError m)"
      by (rule exI)
  next
    assume "c_workspace inst = p_workspace parent
              \<and> c_workspace_id inst = p_workspace_id parent"
    then have "after_insert_check_child_has_same_workspace inst = Inr ()"
      using assms(5) by (simp add: after_insert_check_child_has_same_workspace_def)
    then show "fire_event (register_workspace_checks members) (mb_name obj) ev inst = Inr ()"
      by (simp add: fe for_each_const_Inr)
  qed
qed

theorem child_workspace_is_asserted_witness:
  "\<exists>m. fire_event (register_workspace_checks example_members) ''Service'' ''after_update''
          conflicting_child = Inl (AssertionError m)"
  using child_workspace_is_asserted
    [where members = example_members
       and obj = "\<lparr>mb_name = ''Service'', mb_isclass = True, mb_workspace_id = True\<rparr>"
       and ev = "''after_update''" and inst = conflicting_child
       and parent = "\<lparr>p_workspace = Some 2, p_workspace_id = Some 2\<rparr>"]
  by (simp add: example_members_def conflicting_child_def)

subsection \<open>Deleting a vulnerability of an untracked severity\<close>

lemma fold_delete_untracked:
  "\<forall>inst \<in> set xs. v_severity inst \<notin> set SEVERITIES_ALLOWED \<Longrightarrow>
     fold (\<lambda>inst s'. delete_instance today s' inst) xs s = s"
  by (induction xs arbitrary: s) (simp_all add: delete_instance_def)

lemma bulk_delete_untracked:
  assumes "\<forall>inst \<in> set (query_all q table). v_severity inst \<notin> set SEVERITIES_ALLOWED"
  shows "alter_histogram_on_before_compile_delete today table c q = c"
proof -
  have "fold (\<lambda>desc s. if is_vulnerability_type desc
            then fold (\<lambda>inst s'. delete_instance today s' inst) (query_all q table) s
            else s) ds s = s" for ds s
    by (induction ds arbitrary: s) (simp_all add: fold_delete_untracked[OF assms])
  then show ?thesis by (simp add: alter_histogram_on_before_compile_delete_def)
qed

text \<open>
  Claim C10: deleting a vulnerability whose severity is not medium, high or critical
  leaves the histogram as it is, whatever its status and its confirmed flag; the same
  holds for a bulk delete whose rows all have untracked severities.
\<close>

theorem delete_untracked_severity_changes_nothing:
  "(v_severity inst \<notin> set SEVERITIES_ALLOWED
      \<longrightarrow> alter_histogram_on_delete today c inst = c)
   \<and> ((\<forall>i \<in> set (query_all q table). v_severity i \<notin> set SEVERITIES_ALLOWED)
      \<longrightarrow> alter_histogram_on_before_compile_delete today table c q = c)"
  by (simp add: alter_histogram_on_delete_def bulk_delete_untracked)

theorem delete_untracked_severity_changes_nothing_witness:
  "v_severity low_vulnerability \<notin> set SEVERITIES_ALLOWED
   \<and> v_status low_vulnerability = STATUS_OPEN
   \<and> v_confirmed low_vulnerability = PBool True
   \<and> alter_histogram_on_delete 0 example_db low_vulnerability = example_db
   \<and> query_all delete_low_query [low_vulnerability] = [low_vulnerability]
   \<and> alter_histogram_on_before_compile_delete 0 [low_vulnerability] example_db delete_low_query
       = example_db"
  using delete_untracked_severity_changes_nothing
    [of low_vulnerability 0 example_db delete_low_query "[low_vulnerability]"]
  by (simp add: low_vulnerability_def delete_low_query_def query_all_def model_constants)

subsection \<open>Inserting a vulnerability\<close>





subsection \<open>Bulk updates\<close>



















text \<open>
  The target value 1 for confirmed equals True in Python: a confirmed row is left as it
  is.
\<close>

lemma confirmed_one_is_no_change:
  "get_history_from_context_values
       (\<lambda>field. if field = ''confirmed'' then Some (PInt 1) else None)
       ''confirmed'' (PBool True)
     = \<lparr>added = [], unchanged = [PBool True], deleted = []\<rparr>
   \<and> update_instance today
       (\<lambda>field. if field = ''confirmed'' then Some (PInt 1) else None) c high_vulnerability
     = Inr c"
  by (simp add: get_history_from_context_values_def update_instance_def
      alter_histogram_on_update_general_def confirmed_counters_def high_vulnerability_def)

section \<open>Properties of the migration\<close>

lemma filter_neq_absent:
  assumes "n \<notin> set (map g xs)"
  shows "filter (\<lambda>t. g t \<noteq> n) xs = xs"
  using assms by (induction xs) auto

lemma upgrade_creates:
  assumes "''vulnerability_hit_count'' \<notin> set (map t_name (tables s))"
    "''ix_vulnerability_hit_count_workspace_id'' \<notin> set (map ix_name (indexes s))"
  shows "upgrade s =
     Inr (s\<lparr>tables := tables s @
              [\<lparr>t_name = ''vulnerability_hit_count'',
                t_columns = vulnerability_hit_count_columns,
                t_constraints = vulnerability_hit_count_constraints\<rparr>],
            indexes := indexes s @
              [\<lparr>ix_name = ''ix_vulnerability_hit_count_workspace_id'',
                ix_table = ''vulnerability_hit_count'', ix_columns = [''workspace_id''],
                ix_unique = False\<rparr>]\<rparr>)"
  using assms by (simp add: upgrade_def create_table_def create_index_def)

lemma downgrade_reverses_upgrade:
  assumes "upgrade s = Inr s'"
  shows "downgrade s' = Inr s"
proof -
  have nt: "''vulnerability_hit_count'' \<notin> set (map t_name (tables s))"
    using assms by (auto simp: upgrade_def create_table_def split: if_splits)
  have ni: "''ix_vulnerability_hit_count_workspace_id'' \<notin> set (map ix_name (indexes s))"
    using assms nt by (auto simp: upgrade_def create_table_def create_index_def split: if_splits)
  have s': "s' = s\<lparr>tables := tables s @
              [\<lparr>t_name = ''vulnerability_hit_count'',
                t_columns = vulnerability_hit_count_columns,
                t_constraints = vulnerability_hit_count_constraints\<rparr>],
            indexes := indexes s @
              [\<lparr>ix_name = ''ix_vulnerability_hit_count_workspace_id'',
                ix_table = ''vulnerability_hit_count'', ix_columns = [''workspace_id''],
                ix_unique = False\<rparr>]\<rparr>"
    using assms upgrade_creates[OF nt ni] by simp
  have ft: "filter (\<lambda>t. t_name t \<noteq> ''vulnerability_hit_count'') (tables s) = tables s"
    by (rule filter_neq_absent[OF nt])
  have fi: "filter (\<lambda>i. ix_name i \<noteq> ''ix_vulnerability_hit_count_workspace_id'') (indexes s)
              = indexes s"
    by (rule filter_neq_absent[OF ni])
  show ?thesis
    unfolding s' by (simp add: downgrade_def drop_index_def drop_table_def ft fi)
qed

text \<open>
  Claim C8 gives the table 34 columns. The migration declares 35: id, workspace_id,
  date and the 32 counters.
\<close>

theorem hit_count_columns_counterexample:
  "length vulnerability_hit_count_columns \<noteq> 34"
  by (simp add: vulnerability_hit_count_columns_def)

text \<open>
  Claim C8, amended: upgrade creates the table vulnerability_hit_count with exactly 35
  columns: a surrogate id, a non-nullable workspace_id with a foreign key to
  workspace.id and a non-unique index, a date, and exactly 32 non-nullable integer
  counters, one named severity_status_confirmation for each combination of the 4
  severities, the 4 statuses and the 2 confirmation states; downgrade drops the index
  and then the table, which reverses upgrade.
\<close>

theorem hit_count_table_shape:
  "length vulnerability_hit_count_columns = 35
   \<and> map col_name vulnerability_hit_count_columns
        = [''id'', ''workspace_id'', ''date''] @ counter_names
   \<and> length counter_names = 32 \<and> distinct counter_names
   \<and> take 3 vulnerability_hit_count_columns
        = [Column ''id'' Integer False, Column ''workspace_id'' Integer False,
           Column ''date'' Date False]
   \<and> (\<forall>c \<in> set (drop 3 vulnerability_hit_count_columns).
          col_type c = Integer \<and> \<not> col_nullable c)
   \<and> ForeignKeyConstraint [''workspace_id''] [''workspace.id'']
        \<in> set vulnerability_hit_count_constraints
   \<and> (''vulnerability_hit_count'' \<notin> set (map t_name (tables s))
        \<and> ''ix_vulnerability_hit_count_workspace_id'' \<notin> set (map ix_name (indexes s))
      \<longrightarrow> upgrade s =
           Inr (s\<lparr>tables := tables s @
                    [\<lparr>t_name = ''vulnerability_hit_count'',
                      t_columns = vulnerability_hit_count_columns,
                      t_constraints = vulnerability_hit_count_constraints\<rparr>],
                  indexes := indexes s @
                    [\<lparr>ix_name = ''ix_vulnerability_hit_count_workspace_id'',
                      ix_table = ''vulnerability_hit_count'',
                      ix_columns = [''workspace_id''], ix_unique = False\<rparr>]\<rparr>))
   \<and> (upgrade s = Inr s' \<longrightarrow> downgrade s' = Inr s)"
proof (intro conjI impI)
  show "length vulnerability_hit_count_columns = 35"
    by (simp add: vulnerability_hit_count_columns_def)
  show "map col_name vulnerability_hit_count_columns
          = [''id'', ''workspace_id'', ''date''] @ counter_names"
    by (simp add: vulnerability_hit_count_columns_def counter_names_def)
  show "length counter_names = 32"
    by (simp add: counter_names_def)
  show "distinct counter_names"
    by (simp add: counter_names_def)
  show "take 3 vulnerability_hit_count_columns
          = [Column ''id'' Integer False, Column ''workspace_id'' Integer False,
             Column ''date'' Date False]"
    by (simp add: vulnerability_hit_count_columns_def)
  show "\<forall>c \<in> set (drop 3 vulnerability_hit_count_columns).
          col_type c = Integer \<and> \<not> col_nullable c"
    by (simp add: vulnerability_hit_count_columns_def)
  show "ForeignKeyConstraint [''workspace_id''] [''workspace.id'']
          \<in> set vulnerability_hit_count_constraints"
    by (simp add: vulnerability_hit_count_constraints_def)
next
  assume "''vulnerability_hit_count'' \<notin> set (map t_name (tables s))
        \<and> ''ix_vulnerability_hit_count_workspace_id'' \<notin> set (map ix_name (indexes s))"
  then show "upgrade s =
           Inr (s\<lparr>tables := tables s @
                    [\<lparr>t_name = ''vulnerability_hit_count'',
                      t_columns = vulnerability_hit_count_columns,
                      t_constraints = vulnerability_hit_count_constraints\<rparr>],
                  indexes := indexes s @
                    [\<lparr>ix_name = ''ix_vulnerability_hit_count_workspace_id'',
                      ix_table = ''vulnerability_hit_count'',
                      ix_columns = [''workspace_id''], ix_unique = False\<rparr>]\<rparr>)"
    using upgrade_creates by blast
next
  assume "upgrade s = Inr s'"
  then show "downgrade s' = Inr s" by (rule downgrade_reverses_upgrade)
qed

theorem hit_count_table_shape_witness:
  "(\<exists>s'. upgrade schema_with_workspace = Inr s'
         \<and> map t_name (tables s') = [''workspace'', ''vulnerability_hit_count'']
         \<and> map ix_unique (indexes s') = [False]
         \<and> downgrade s' = Inr schema_with_workspace)"
proof -
  let ?s' = "schema_with_workspace\<lparr>tables := tables schema_with_workspace @
                    [\<lparr>t_name = ''vulnerability_hit_count'',
                      t_columns = vulnerability_hit_count_columns,
                      t_constraints = vulnerability_hit_count_constraints\<rparr>],
                  indexes := indexes schema_with_workspace @
                    [\<lparr>ix_name = ''ix_vulnerability_hit_count_workspace_id'',
                      ix_table = ''vulnerability_hit_count'',
                      ix_columns = [''workspace_id''], ix_unique = False\<rparr>]\<rparr>"
  note t = hit_count_table_shape[of schema_with_workspace ?s']
  note t8 = t[THEN conjunct2, THEN conjunct2, THEN conjunct2, THEN conjunct2, THEN conjunct2,
              THEN conjunct2, THEN conjunct2]
  have up: "upgrade schema_with_workspace = Inr ?s'"
    by (rule t8[THEN conjunct1, THEN mp]) (simp add: schema_with_workspace_def)
  have down: "downgrade ?s' = Inr schema_with_workspace"
    by (rule t8[THEN conjunct2, THEN mp]) (rule up)
  have tn: "map t_name (tables ?s') = [''workspace'', ''vulnerability_hit_count'']"
    by (simp add: schema_with_workspace_def)
  have iu: "map ix_unique (indexes ?s') = [False]"
    by (simp add: schema_with_workspace_def)
  show ?thesis
    by (rule exI[of _ ?s']) (intro conjI up tn iu down)
qed

section \<open>Properties of the generic views\<close>

lemma one_cases:
  "one xs = (if xs = [] then Inl NoResultFound
             else if length xs = 1 then Inr (hd xs) else Inl MultipleResultsFound)"
  by (cases xs rule: one.cases) auto

lemma one_Inr: "one xs = Inr x \<Longrightarrow> xs = [x]"
  by (cases xs rule: one.cases) auto

lemma get_workspace_name:
  assumes "get_workspace s n = Inr ws"
  shows "ws_name ws = n"
proof -
  have "one (filter (\<lambda>w. ws_name w = n) (s_workspaces s)) = Inr ws"
    using assms by (auto simp: get_workspace_def split: sum.splits error.splits)
  then have "filter (\<lambda>w. ws_name w = n) (s_workspaces s) = [ws]" by (rule one_Inr)
  then have "ws \<in> set (filter (\<lambda>w. ws_name w = n) (s_workspaces s))" by simp
  then show ?thesis by simp
qed

lemma base_query_of_workspace:
  assumes "get_workspace s n = Inr ws"
  shows "GenericWorkspacedView_get_base_query s (ws_name ws) = Inr (workspace_rows s ws)"
  using assms get_workspace_name[OF assms] by (simp add: GenericWorkspacedView_get_base_query_def)

text \<open>
  Claim C3, amended: with a well-formed lookup id, _get_object fails with NotFound (HTTP
  404) when no row matches the lookup field and returns the object when exactly one row
  matches; when more than one row matches, the MultipleResultsFound error of the query
  is raised. The workspace-scoped variant does the same on the rows of the workspace,
  once the workspace is found.
\<close>

theorem get_object_by_number_of_matches:
  assumes "lookup_field_type v object_id = Some k"
  shows "(filter (lookup_matches v object_id) (s_objects s) = []
            \<longrightarrow> GenericView_get_object v s object_id
                  = Inl (HTTPException 404 (not_found_message object_id)))
       \<and> (\<forall>r. filter (lookup_matches v object_id) (s_objects s) = [r]
            \<longrightarrow> GenericView_get_object v s object_id = Inr r)
       \<and> (1 < length (filter (lookup_matches v object_id) (s_objects s))
            \<longrightarrow> GenericView_get_object v s object_id = Inl MultipleResultsFound)
       \<and> (\<forall>ws. get_workspace s workspace_name = Inr ws \<longrightarrow>
            (filter (lookup_matches v object_id) (workspace_rows s ws) = []
               \<longrightarrow> GenericWorkspacedView_get_object v s object_id workspace_name
                     = Inl (HTTPException 404 (not_found_message object_id)))
          \<and> (\<forall>r. filter (lookup_matches v object_id) (workspace_rows s ws) = [r]
               \<longrightarrow> GenericWorkspacedView_get_object v s object_id workspace_name = Inr r)
          \<and> (1 < length (filter (lookup_matches v object_id) (workspace_rows s ws))
               \<longrightarrow> GenericWorkspacedView_get_object v s object_id workspace_name
                     = Inl MultipleResultsFound))"
proof -
  have ok: "validate_object_id v object_id = Inr ()"
    using assms by (simp add: validate_object_id_def)
  have g: "GenericView_get_object v s object_id =
      (case one (filter (lookup_matches v object_id) (s_objects s)) of
             Inl NoResultFound \<Rightarrow> Inl (HTTPException 404 (not_found_message object_id))
           | Inl e \<Rightarrow> Inl e
           | Inr obj \<Rightarrow> Inr obj)"
    by (simp add: GenericView_get_object_def ok GenericView_get_base_query_def)
  have w: "GenericWorkspacedView_get_object v s object_id workspace_name =
      (case one (filter (lookup_matches v object_id) (workspace_rows s ws)) of
             Inl NoResultFound \<Rightarrow> Inl (HTTPException 404 (not_found_message object_id))
           | Inl e \<Rightarrow> Inl e
           | Inr obj \<Rightarrow> Inr obj)" if "get_workspace s workspace_name = Inr ws" for ws
    using that by (simp add: GenericWorkspacedView_get_object_def ok GenericWorkspacedView_get_base_query_def)
  have many: "1 < length xs \<Longrightarrow> one xs = Inl MultipleResultsFound" for xs :: "model_obj list"
    by (cases xs rule: one.cases) auto
  show ?thesis
    by (intro conjI allI impI) (simp_all add: g w many)
qed

lemma unique_query_workspace:
  "unique_query v base (obj\<lparr>o_workspace := x\<rparr>) oid f = unique_query v base obj oid f"
  by (simp add: unique_query_def attr_def)














text \<open>
  Claim C3 says that _get_object fails with NotFound also when more than one row
  matches. Only NoResultFound is caught: with two hosts named a and a view that looks
  hosts up by name, the error MultipleResultsFound of \<^verbatim>\<open>one()\<close> leaves the function.
\<close>

theorem get_object_multiple_rows_counterexample:
  "lookup_field_type names_view ''a'' = Some (PStr ''a'')
   \<and> filter (lookup_matches names_view ''a'') (s_objects session_two_a) = [host_a1, host_a2]
   \<and> GenericView_get_object names_view session_two_a ''a'' = Inl MultipleResultsFound
   \<and> GenericWorkspacedView_get_object names_view session_two_a ''a'' ''ws''
       = Inl MultipleResultsFound"
  by (simp add: names_view_def session_two_a_def host_a1_def host_a2_def example_workspace_def
      lookup_matches_def attr_def GenericView_get_object_def validate_object_id_def
      GenericView_get_base_query_def GenericWorkspacedView_get_object_def
      GenericWorkspacedView_get_base_query_def get_workspace_def workspace_rows_def
      join_workspace_def)

theorem get_object_by_number_of_matches_witness:
  "GenericView_get_object names_view session_one_a ''b'' = Inr host_b
   \<and> GenericWorkspacedView_get_object names_view session_one_a ''b'' ''ws'' = Inr host_b
   \<and> GenericView_get_object names_view session_one_a ''c''
       = Inl (HTTPException 404 (not_found_message ''c''))
   \<and> GenericWorkspacedView_get_object names_view session_two_a ''a'' ''ws''
       = Inl MultipleResultsFound"
  using get_object_by_number_of_matches
          [where v = names_view and object_id = "''b''" and k = "PStr ''b''"
             and s = session_one_a and workspace_name = "''ws''"]
        get_object_by_number_of_matches
          [where v = names_view and object_id = "''c''" and k = "PStr ''c''"
             and s = session_one_a and workspace_name = "''ws''"]
        get_object_by_number_of_matches
          [where v = names_view and object_id = "''a''" and k = "PStr ''a''"
             and s = session_two_a and workspace_name = "''ws''"]
  by (simp add: names_view_def session_one_a_def session_two_a_def host_a1_def host_a2_def
      host_b_def example_workspace_def lookup_matches_def attr_def get_workspace_def
      workspace_rows_def join_workspace_def GenericView_get_base_query_def)

text \<open>A view that is not workspace-scoped creates without any check.\<close>

lemma generic_view_does_not_validate:
  assumes "\<not> workspaced v"
  shows "CreateMixin_perform_create v s obj = (Inr obj, add s obj)"
  using assms
  by (simp add: CreateMixin_perform_create_def validate_uniqueness_def
      GenericView_validate_uniqueness_def)



text \<open>
  Without a conflict the object is stored, and the object returned carries its new
  primary key.
\<close>

lemma flush_new_append:
  "fst (flush_new (xs @ [x]) n) = fst (flush_new xs n) @ [x\<lparr>o_id := Some (n + length xs)\<rparr>]"
  by (induction xs arbitrary: n) (simp_all add: split_beta)

lemma created_object_is_stored:
  assumes "o_id obj = None"
  shows "added_object s obj \<in> set (s_objects (commit (add s obj)))"
  using assms flush_new_append[of "s_new s" obj "s_next_pk s"]
  by (simp add: added_object_def commit_def add_def split_beta)

lemma create_without_conflict:
  assumes gw: "get_workspace s workspace_name = Inr ws"
    and wv: "workspaced v" and nonew: "s_new s = []"
    and free: "\<forall>g \<in> set (unique_fields v). unique_query v (workspace_rows s ws) obj None g = []"
  shows "CreateWorkspacedMixin_perform_create v s obj workspace_name =
           (Inr (added_object s (obj\<lparr>o_workspace := Some ws\<rparr>)),
            commit (add s (obj\<lparr>o_workspace := Some ws\<rparr>)))"
proof -
  have "validate_unique_fields v s (obj\<lparr>o_workspace := Some ws\<rparr>) ws None fs = (Inr (), s)"
    if "\<forall>g \<in> set fs. unique_query v (workspace_rows s ws) obj None g = []" for fs
    using that
    by (induction fs) (simp_all add: base_query_of_workspace[OF gw] unique_query_workspace)
  then have "validate_uniqueness v s (obj\<lparr>o_workspace := Some ws\<rparr>) None = (Inr (), s)"
    using free by (simp add: validate_uniqueness_def wv GenericWorkspacedView_validate_uniqueness_def)
  then show ?thesis
    by (simp add: CreateWorkspacedMixin_perform_create_def nonew gw Let_def)
qed

end
